theory Spec2Isabelle
  imports Main "HOL-Library.AList"
begin

section \<open>Python built-ins used by \<^verbatim>\<open>merlin/server/server_util.py\<close>\<close>

text \<open>
  A Python \<^verbatim>\<open>str\<close> is modelled as a \<^typ>\<open>string\<close> whose characters are the code
  points below 256. Exceptions are values of \<open>py_error\<close>. A configuration value is a
  \<open>py_value\<close>: \<^verbatim>\<open>RedisConfig.entries\<close> holds the \<^verbatim>\<open>str\<close> objects
  that \<^verbatim>\<open>parse\<close> stores and whatever object a setter is handed, which for
  \<^verbatim>\<open>set_port\<close> is an \<^verbatim>\<open>int\<close>.
\<close>

datatype py_error = IndexError | KeyError | TypeError | ValueError | FileNotFoundError

datatype py_value = PStr string | PInt int

text \<open>The result of a method that may fall off its end: \<^verbatim>\<open>None\<close> or a \<^verbatim>\<open>bool\<close>.\<close>

datatype py_ret = PyNone | PyBool bool

definition NL :: char where
  "NL = CHR 0x0A"

definition CR :: char where
  "CR = CHR 0x0D"

text \<open>
  What reading a file opened in text mode does to its characters (the default
  \<^verbatim>\<open>newline=None\<close>): a carriage return followed by a line feed, and a carriage
  return alone, are each read as one line feed.
\<close>

fun universal_newlines :: "string \<Rightarrow> string" where
  "universal_newlines [] = []"
| "universal_newlines [c] = (if c = CR then [NL] else [c])"
| "universal_newlines (c # d # cs) =
     (if c = CR \<and> d = NL then NL # universal_newlines cs
      else if c = CR then NL # universal_newlines (d # cs)
      else c # universal_newlines (d # cs))"

text \<open>
  \<^verbatim>\<open>str.isspace\<close> on one character, for code points below 256: TAB, LF, VT, FF, CR,
  FS, GS, RS, US, SPACE, NEL and NBSP.
\<close>

definition py_whitespace :: "char list" where
  "py_whitespace =
     [CHR 0x09, CHR 0x0A, CHR 0x0B, CHR 0x0C, CHR 0x0D, CHR 0x1C, CHR 0x1D, CHR 0x1E,
      CHR 0x1F, CHR 0x20, CHR 0x85, CHR 0xA0]"

definition py_isspace :: "char \<Rightarrow> bool" where
  "py_isspace c = (c \<in> set py_whitespace)"

text \<open>\<^verbatim>\<open>s.split(sep)\<close> for a one-character separator: one more piece than separators.\<close>

fun split_on :: "char \<Rightarrow> string \<Rightarrow> string list" where
  "split_on sep [] = [[]]"
| "split_on sep (c # cs) =
     (let r = split_on sep cs in if c = sep then [] # r else (c # hd r) # tl r)"

text \<open>
  \<^verbatim>\<open>s.split(maxsplit=1)\<close>: leading whitespace is skipped, the first token runs to the
  next whitespace, the whitespace after it is skipped and what is left, if anything, is
  the second piece, its trailing whitespace included.
\<close>

definition py_split1 :: "string \<Rightarrow> string list" where
  "py_split1 s =
     (let s1 = dropWhile py_isspace s in
      if s1 = [] then []
      else
        let tok = takeWhile (\<lambda>c. \<not> py_isspace c) s1;
            rest = dropWhile py_isspace (dropWhile (\<lambda>c. \<not> py_isspace c) s1)
        in if rest = [] then [tok] else [tok, rest])"

text \<open>
  The characters \<^verbatim>\<open>int\<close> skips around a number: the same ones without FS, GS, RS
  and US.
\<close>

definition int_whitespace :: "char list" where
  "int_whitespace =
     [CHR 0x09, CHR 0x0A, CHR 0x0B, CHR 0x0C, CHR 0x0D, CHR 0x20, CHR 0x85, CHR 0xA0]"

definition int_strip :: "string \<Rightarrow> string" where
  "int_strip s =
     rev (dropWhile (\<lambda>c. c \<in> set int_whitespace)
            (rev (dropWhile (\<lambda>c. c \<in> set int_whitespace) s)))"

definition is_digit :: "char \<Rightarrow> bool" where
  "is_digit c = (c \<in> set ''0123456789'')"

definition digit_val :: "char \<Rightarrow> int" where
  "digit_val c = int (of_char c) - 48"

text \<open>
  \<^verbatim>\<open>int(s)\<close> in base 10: surrounding whitespace is stripped, one sign is allowed,
  then digits with single underscores between them, at most 4300 digits (the default of
  \<^verbatim>\<open>sys.get_int_max_str_digits()\<close>; sign and underscores are not counted).
  \<open>None\<close> is \<^verbatim>\<open>ValueError\<close>.
\<close>

fun py_digits :: "int \<Rightarrow> string \<Rightarrow> int option" where
  "py_digits acc [] = Some acc"
| "py_digits acc [c] = (if is_digit c then Some (10 * acc + digit_val c) else None)"
| "py_digits acc (c # d # cs) =
     (if is_digit c then py_digits (10 * acc + digit_val c) (d # cs)
      else if c = CHR ''_'' \<and> is_digit d then py_digits acc (d # cs)
      else None)"

definition py_unsigned :: "string \<Rightarrow> int option" where
  "py_unsigned s =
     (case s of
        [] \<Rightarrow> None
      | c # _ \<Rightarrow>
          if is_digit c \<and> length (filter is_digit s) \<le> 4300 then py_digits 0 s else None)"

definition py_int :: "string \<Rightarrow> int option" where
  "py_int s =
     (case int_strip s of
        [] \<Rightarrow> None
      | c # cs \<Rightarrow>
          if c = CHR ''-'' then map_option uminus (py_unsigned cs)
          else if c = CHR ''+'' then py_unsigned cs
          else py_unsigned (c # cs))"

text \<open>\<^verbatim>\<open>str(n)\<close> for an \<^verbatim>\<open>int\<close>, and the formatting of a value inside an f-string.\<close>

fun nat_digits :: "nat \<Rightarrow> string" where
  "nat_digits n =
     (if n < 10 then [char_of (48 + n)] else nat_digits (n div 10) @ [char_of (48 + n mod 10)])"

definition int_str :: "int \<Rightarrow> string" where
  "int_str i = (if i < 0 then CHR ''-'' # nat_digits (nat (- i)) else nat_digits (nat i))"

fun py_str :: "py_value \<Rightarrow> string" where
  "py_str (PStr s) = s"
| "py_str (PInt i) = int_str i"

section \<open>ValueValidators\<close>

text \<open>
  \<^verbatim>\<open>valid_ipv4\<close>. The loop body tests \<^verbatim>\<open>int(i) < 0 and int(i) > 255\<close>; the
  conversion raises \<^verbatim>\<open>ValueError\<close> on a part that is not a number.
\<close>

fun valid_ipv4_loop :: "string list \<Rightarrow> py_error + bool" where
  "valid_ipv4_loop [] = Inr True"
| "valid_ipv4_loop (i # arr) =
     (case py_int i of
        None \<Rightarrow> Inl ValueError
      | Some n \<Rightarrow> if n < 0 \<and> n > 255 then Inr False else valid_ipv4_loop arr)"

definition valid_ipv4 :: "string \<Rightarrow> py_error + bool" where
  "valid_ipv4 ip =
     (if ip = [] then Inr False
      else
        let arr = split_on (CHR ''.'') ip
        in if length arr \<noteq> 4 then Inr False else valid_ipv4_loop arr)"

text \<open>
  \<^verbatim>\<open>valid_port\<close>. Comparing a \<^verbatim>\<open>str\<close> with \<^verbatim>\<open>0\<close> raises
  \<^verbatim>\<open>TypeError\<close>.
\<close>

fun valid_port :: "py_value \<Rightarrow> py_error + bool" where
  "valid_port (PInt port) = (if port > 0 \<and> port < 65536 then Inr True else Inr False)"
| "valid_port (PStr s) = Inl TypeError"

section \<open>RedisConfig\<close>

text \<open>
  The attributes an instance owns after \<^verbatim>\<open>__init__\<close>. \<^verbatim>\<open>entry_order\<close> is
  not among them: no method assigns it, so every instance reads and appends to the one
  list object of the class, which lives in the \<open>world\<close> below.
\<close>

record RedisConfig =
  filename :: string
  entries :: "string \<rightharpoonup> py_value"
  comments :: "string \<rightharpoonup> string"
  trailing_comments :: string
  changed :: bool

definition set_config_value :: "RedisConfig \<Rightarrow> string \<Rightarrow> py_value \<Rightarrow> bool \<times> RedisConfig" where
  "set_config_value self key val =
     (if entries self key = None then (False, self)
      else (True, self\<lparr>entries := (entries self)(key \<mapsto> val), changed := True\<rparr>))"

definition get_config_value :: "RedisConfig \<Rightarrow> string \<Rightarrow> py_value option" where
  "get_config_value self key = entries self key"

definition changes_made :: "RedisConfig \<Rightarrow> bool" where
  "changes_made self = changed self"

definition get_ip_address :: "RedisConfig \<Rightarrow> py_value option" where
  "get_ip_address self = get_config_value self ''bind''"

text \<open>The argument is \<open>None\<close> for Python's \<^verbatim>\<open>None\<close>. Logging is not modelled.\<close>

definition set_ip_address :: "RedisConfig \<Rightarrow> string option \<Rightarrow> py_error + bool \<times> RedisConfig" where
  "set_ip_address self ipaddress =
     (case ipaddress of
        None \<Rightarrow> Inr (False, self)
      | Some ip \<Rightarrow>
          (case valid_ipv4 ip of
             Inl e \<Rightarrow> Inl e
           | Inr True \<Rightarrow>
               (case set_config_value self ''bind'' (PStr ip) of
                  (False, self') \<Rightarrow> Inr (False, self')
                | (True, self') \<Rightarrow> Inr (True, self'))
           | Inr False \<Rightarrow> Inr (False, self)))"

definition get_port :: "RedisConfig \<Rightarrow> py_value option" where
  "get_port self = get_config_value self ''port''"

definition set_port :: "RedisConfig \<Rightarrow> py_value option \<Rightarrow> py_error + bool \<times> RedisConfig" where
  "set_port self port =
     (case port of
        None \<Rightarrow> Inr (False, self)
      | Some p \<Rightarrow>
          (case valid_port p of
             Inl e \<Rightarrow> Inl e
           | Inr True \<Rightarrow>
               (case set_config_value self ''port'' p of
                  (False, self') \<Rightarrow> Inr (False, self')
                | (True, self') \<Rightarrow> Inr (True, self'))
           | Inr False \<Rightarrow> Inr (False, self)))"


subsection \<open>The process state shared by all instances\<close>

text \<open>
  \<open>conf_files\<close> maps a path to the characters of the file. Reading translates
  newlines (\<open>universal_newlines\<close>); writing leaves a line feed as it is, as on a system
  whose \<^verbatim>\<open>os.linesep\<close> is the line feed. \<open>user_files\<close> maps a path to the mapping that
  \<^verbatim>\<open>yaml.load\<close> returns and \<^verbatim>\<open>yaml.dump\<close> receives (user name to
  field name to value). \<open>RedisConfig_entry_order\<close> and \<open>RedisUsers_users\<close> are
  the list and the dict created once by the class bodies
  (\<^verbatim>\<open>entry_order = []\<close>, \<^verbatim>\<open>users = {}\<close>). A Python dict whose
  iteration order matters is an association list with distinct keys, in insertion order.
\<close>

record User =
  status :: string
  hash_password :: string
  keys :: string
  commands :: string

type_synonym yaml_doc = "(string \<times> (string \<times> string) list) list"

record world =
  conf_files :: "string \<rightharpoonup> string"
  user_files :: "string \<rightharpoonup> yaml_doc"
  RedisConfig_entry_order :: "string list"
  RedisUsers_users :: "(string \<times> User) list"

subsection \<open>parse\<close>

text \<open>
  The state the loop of \<^verbatim>\<open>parse\<close> carries: the class's \<^verbatim>\<open>entry_order\<close>,
  the instance's \<^verbatim>\<open>entries\<close> and \<^verbatim>\<open>comments\<close>, and the local
  \<^verbatim>\<open>comments\<close> string (\<open>pending\<close>).
\<close>

record parse_state =
  order :: "string list"
  ents :: "string \<rightharpoonup> py_value"
  coms :: "string \<rightharpoonup> string"
  pending :: string

definition is_entry_line :: "string \<Rightarrow> bool" where
  "is_entry_line line = (length line > 0 \<and> hd line \<noteq> CHR ''#'')"

definition store_entry :: "parse_state \<Rightarrow> string \<Rightarrow> string \<Rightarrow> parse_state" where
  "store_entry st k v =
     st\<lparr>order := order st @ [k], ents := (ents st)(k \<mapsto> PStr v),
        coms := (coms st)(k \<mapsto> pending st), pending := []\<rparr>"

text \<open>
  One iteration. The state returned with an error is the state at the raise:
  \<^verbatim>\<open>entry_order.append(line_contents[0])\<close> runs before
  \<^verbatim>\<open>line_contents[1]\<close> is read on the next line of the source.
\<close>

definition parse_line :: "parse_state \<Rightarrow> string \<Rightarrow> parse_state \<times> py_error option" where
  "parse_line st line =
     (if is_entry_line line then
        (case py_split1 line of
           [] \<Rightarrow> (st, Some IndexError)
         | [k] \<Rightarrow>
             if ents st k \<noteq> None then (st, Some IndexError)
             else (st\<lparr>order := order st @ [k]\<rparr>, Some IndexError)
         | k # v # _ \<Rightarrow>
             if ents st k \<noteq> None then
               (case py_split1 v of
                  t # v' # _ \<Rightarrow> (store_entry st (k @ '' '' @ t) v', None)
                | _ \<Rightarrow> (st, Some IndexError))
             else (store_entry st k v, None))
      else (st\<lparr>pending := pending st @ line @ [NL]\<rparr>, None))"

fun parse_lines :: "parse_state \<Rightarrow> string list \<Rightarrow> parse_state \<times> py_error option" where
  "parse_lines st [] = (st, None)"
| "parse_lines st (line # file_lines) =
     (case parse_line st line of
        (st', Some e) \<Rightarrow> (st', Some e)
      | (st', None) \<Rightarrow> parse_lines st' file_lines)"

text \<open>
  \<^verbatim>\<open>parse\<close> returns the world, the instance as the call leaves it, and the
  exception if one was raised.
\<close>

definition RedisConfig_parse :: "world \<Rightarrow> RedisConfig \<Rightarrow> world \<times> RedisConfig \<times> py_error option" where
  "RedisConfig_parse w self =
     (let self1 = self\<lparr>entries := Map.empty, comments := Map.empty\<rparr> in
      case conf_files w (filename self) of
        None \<Rightarrow> (w, self1, Some FileNotFoundError)
      | Some file_contents \<Rightarrow>
          (case parse_lines
                  \<lparr>order = RedisConfig_entry_order w, ents = Map.empty, coms = Map.empty,
                   pending = []\<rparr>
                  (split_on NL (universal_newlines file_contents)) of
             (st, Some e) \<Rightarrow>
               (w\<lparr>RedisConfig_entry_order := order st\<rparr>,
                self1\<lparr>entries := ents st, comments := coms st\<rparr>, Some e)
           | (st, None) \<Rightarrow>
               (w\<lparr>RedisConfig_entry_order := order st\<rparr>,
                self1\<lparr>entries := ents st, comments := coms st,
                      trailing_comments := butlast (pending st)\<rparr>, None)))"

text \<open>
  \<^verbatim>\<open>RedisConfig(filename)\<close>: the class attributes
  \<^verbatim>\<open>trailing_comments = ""\<close> and \<^verbatim>\<open>changed = False\<close> are the values an
  instance reads until it assigns its own. An exception leaves no instance.
\<close>

definition RedisConfig_init :: "world \<Rightarrow> string \<Rightarrow> world \<times> (py_error + RedisConfig)" where
  "RedisConfig_init w fn =
     (case RedisConfig_parse w \<lparr>filename = fn, entries = Map.empty, comments = Map.empty,
                    trailing_comments = [], changed = False\<rparr> of
        (w', self, Some e) \<Rightarrow> (w', Inl e)
      | (w', self, None) \<Rightarrow> (w', Inr self))"

subsection \<open>write\<close>

text \<open>
  The loop of \<^verbatim>\<open>write\<close>: the text written so far and the
  \<^verbatim>\<open>KeyError\<close>, if a key of \<^verbatim>\<open>entry_order\<close> is missing from
  \<^verbatim>\<open>comments\<close> or \<^verbatim>\<open>entries\<close>.
\<close>

fun write_entries :: "RedisConfig \<Rightarrow> string list \<Rightarrow> string \<times> py_error option" where
  "write_entries self [] = ([], None)"
| "write_entries self (entry # rest) =
     (case comments self entry of
        None \<Rightarrow> ([], Some KeyError)
      | Some c \<Rightarrow>
          (case entries self entry of
             None \<Rightarrow> (c, Some KeyError)
           | Some v \<Rightarrow>
               (case write_entries self rest of
                  (out, err) \<Rightarrow> (c @ entry @ '' '' @ py_str v @ [NL] @ out, err))))"

text \<open>
  Opening with mode \<^verbatim>\<open>"w"\<close> truncates the file, so after an exception the file
  holds what had been written.
\<close>

definition RedisConfig_write :: "world \<Rightarrow> RedisConfig \<Rightarrow> world \<times> py_error option" where
  "RedisConfig_write w self =
     (case write_entries self (RedisConfig_entry_order w) of
        (out, Some e) \<Rightarrow> (w\<lparr>conf_files := (conf_files w)(filename self \<mapsto> out)\<rparr>, Some e)
      | (out, None) \<Rightarrow>
          (w\<lparr>conf_files := (conf_files w)(filename self \<mapsto> out @ trailing_comments self)\<rparr>,
           None))"


section \<open>RedisUsers\<close>

text \<open>
  \<^verbatim>\<open>hashlib.sha256(b).hexdigest()\<close> is a parameter \<open>H\<close> of the model, from the
  bytes hashed to the hex digest. \<open>utf8\<close> is \<^verbatim>\<open>bytes(s, "utf-8")\<close> on code points
  below 256.
\<close>

definition utf8 :: "string \<Rightarrow> string" where
  "utf8 s =
     concat (map (\<lambda>c. if (of_char c :: nat) < 128 then [c]
                        else [char_of (192 + (of_char c :: nat) div 64),
                              char_of (128 + (of_char c :: nat) mod 64)]) s)"

subsection \<open>RedisUsers.User\<close>

definition User_set_password :: "(string \<Rightarrow> string) \<Rightarrow> User \<Rightarrow> string \<Rightarrow> User" where
  "User_set_password H self password = self\<lparr>hash_password := H (utf8 password)\<rparr>"

text \<open>
  \<^verbatim>\<open>User(status, keys, commands, password)\<close>. The constructor assigns
  \<^verbatim>\<open>hash_password\<close> only when a password is given; otherwise the instance reads
  the class attribute \<^verbatim>\<open>hashlib.sha256(b"password").hexdigest()\<close>, which nothing
  reassigns.
\<close>

definition User_init ::
  "(string \<Rightarrow> string) \<Rightarrow> string \<Rightarrow> string \<Rightarrow> string \<Rightarrow> string option \<Rightarrow> User" where
  "User_init H st ks cmds password =
     (let self = \<lparr>status = st, hash_password = H ''password'', keys = ks, commands = cmds\<rparr>
      in case password of None \<Rightarrow> self | Some p \<Rightarrow> User_set_password H self p)"

text \<open>\<^verbatim>\<open>User()\<close> with the defaults of the signature.\<close>

definition User_default :: "(string \<Rightarrow> string) \<Rightarrow> User" where
  "User_default H = User_init H ''on'' ''*'' ''@all'' None"

definition parse_dict :: "User \<Rightarrow> (string \<times> string) list \<Rightarrow> py_error + User" where
  "parse_dict self d =
     (case map_of d ''status'' of
        None \<Rightarrow> Inl KeyError
      | Some st \<Rightarrow>
     (case map_of d ''keys'' of
        None \<Rightarrow> Inl KeyError
      | Some ks \<Rightarrow>
     (case map_of d ''commands'' of
        None \<Rightarrow> Inl KeyError
      | Some cmds \<Rightarrow>
     (case map_of d ''hash_password'' of
        None \<Rightarrow> Inl KeyError
      | Some hp \<Rightarrow>
          Inr (self\<lparr>status := st, keys := ks, commands := cmds, hash_password := hp\<rparr>)))))"

text \<open>\<^verbatim>\<open>get_user_dict\<close> assigns \<^verbatim>\<open>self.status\<close> before it builds the dict.\<close>

definition get_user_dict :: "User \<Rightarrow> (string \<times> string) list \<times> User" where
  "get_user_dict self =
     (let self' = self\<lparr>status := ''on''\<rparr>
      in ([(''status'', status self'), (''hash_password'', hash_password self'),
           (''keys'', keys self'), (''commands'', commands self')], self'))"

subsection \<open>The registry\<close>

text \<open>
  \<open>users_attr\<close> is the instance attribute \<^verbatim>\<open>users\<close>: \<open>None\<close> until
  \<^verbatim>\<open>parse\<close> assigns it. Until then \<^verbatim>\<open>self.users\<close> is the dict of the class,
  and item assignment and deletion through it change that dict.
\<close>

record RedisUsers =
  ufilename :: string
  users_attr :: "(string \<times> User) list option"

definition get_users :: "world \<Rightarrow> RedisUsers \<Rightarrow> (string \<times> User) list" where
  "get_users w self = (case users_attr self of None \<Rightarrow> RedisUsers_users w | Some us \<Rightarrow> us)"

definition put_users ::
  "world \<Rightarrow> RedisUsers \<Rightarrow> (string \<times> User) list \<Rightarrow> world \<times> RedisUsers" where
  "put_users w self us =
     (case users_attr self of
        None \<Rightarrow> (w\<lparr>RedisUsers_users := us\<rparr>, self)
      | Some _ \<Rightarrow> (w, self\<lparr>users_attr := Some us\<rparr>))"

text \<open>The loop of \<^verbatim>\<open>parse\<close>: each loaded dict is replaced by a \<^verbatim>\<open>User\<close>.\<close>

fun parse_users :: "(string \<Rightarrow> string) \<Rightarrow> yaml_doc \<Rightarrow> py_error + (string \<times> User) list" where
  "parse_users H [] = Inr []"
| "parse_users H ((user, d) # rest) =
     (case parse_dict (User_default H) d of
        Inl e \<Rightarrow> Inl e
      | Inr new_user \<Rightarrow>
          (case parse_users H rest of
             Inl e \<Rightarrow> Inl e
           | Inr us \<Rightarrow> Inr ((user, new_user) # us)))"

definition RedisUsers_parse ::
  "(string \<Rightarrow> string) \<Rightarrow> world \<Rightarrow> RedisUsers \<Rightarrow> py_error + RedisUsers" where
  "RedisUsers_parse H w self =
     (case user_files w (ufilename self) of
        None \<Rightarrow> Inl FileNotFoundError
      | Some doc \<Rightarrow>
          (case parse_users H doc of
             Inl e \<Rightarrow> Inl e
           | Inr us \<Rightarrow> Inr (self\<lparr>users_attr := Some us\<rparr>)))"

text \<open>\<^verbatim>\<open>RedisUsers(filename)\<close>: the file is parsed only if it exists.\<close>

definition RedisUsers_init ::
  "(string \<Rightarrow> string) \<Rightarrow> world \<Rightarrow> string \<Rightarrow> py_error + RedisUsers" where
  "RedisUsers_init H w fn =
     (let self = \<lparr>ufilename = fn, users_attr = None\<rparr>
      in if user_files w fn \<noteq> None then RedisUsers_parse H w self else Inr self)"

text \<open>
  \<^verbatim>\<open>write\<close>: \<^verbatim>\<open>get_user_dict\<close> is called on every user object of the registry,
  whose assignment to \<^verbatim>\<open>status\<close> stays in the registry.
\<close>

definition RedisUsers_write :: "world \<Rightarrow> RedisUsers \<Rightarrow> world \<times> RedisUsers" where
  "RedisUsers_write w self =
     (let us = get_users w self;
          data = map (\<lambda>(key, u). (key, fst (get_user_dict u))) us;
          (w', self') = put_users w self (map (\<lambda>(key, u). (key, snd (get_user_dict u))) us)
      in (w'\<lparr>user_files := (user_files w')(ufilename self \<mapsto> data)\<rparr>, self'))"

definition add_user ::
  "(string \<Rightarrow> string) \<Rightarrow> world \<Rightarrow> RedisUsers \<Rightarrow> string \<Rightarrow> string \<Rightarrow> string \<Rightarrow> string \<Rightarrow>
   string option \<Rightarrow> bool \<times> world \<times> RedisUsers" where
  "add_user H w self user st ks cmds password =
     (if map_of (get_users w self) user \<noteq> None then (False, w, self)
      else (True, put_users w self
                    (AList.update user (User_init H st ks cmds password) (get_users w self))))"

text \<open>
  \<^verbatim>\<open>RedisUsers.set_password\<close> has one \<^verbatim>\<open>return\<close> statement, in the branch of
  the unknown user.
\<close>

definition set_password ::
  "(string \<Rightarrow> string) \<Rightarrow> world \<Rightarrow> RedisUsers \<Rightarrow> string \<Rightarrow> string \<Rightarrow>
   py_ret \<times> world \<times> RedisUsers" where
  "set_password H w self user password =
     (case map_of (get_users w self) user of
        None \<Rightarrow> (PyBool False, w, self)
      | Some u \<Rightarrow>
          (PyNone, put_users w self
                     (AList.update user (User_set_password H u password) (get_users w self))))"

definition remove_user :: "world \<Rightarrow> RedisUsers \<Rightarrow> string \<Rightarrow> bool \<times> world \<times> RedisUsers" where
  "remove_user w self user =
     (if map_of (get_users w self) user \<noteq> None
      then (True, put_users w self (AList.delete user (get_users w self)))
      else (False, w, self))"

subsection \<open>apply_to_redis\<close>

text \<open>
  The commands sent over the connection, in the order sent.
  \<open>ACL_SETUSER username hashed_passwords enabled keys commands\<close> is the call of
  \<^verbatim>\<open>db.acl_setuser\<close> with these keyword arguments, \<open>ACL_DELUSER\<close> the call of
  \<^verbatim>\<open>db.acl_deluser\<close>. \<open>current_users\<close> is the list \<^verbatim>\<open>db.acl_users()\<close>
  returned.
\<close>

datatype redis_command =
  ACL_SETUSER string "string list" bool string "string list"
| ACL_DELUSER string

fun setuser_loop :: "string list \<Rightarrow> (string \<times> User) list \<Rightarrow> redis_command list" where
  "setuser_loop current_users [] = []"
| "setuser_loop current_users ((user, data) # rest) =
     (if user \<notin> set current_users
      then ACL_SETUSER user [''+'' @ hash_password data] (status data = ''on'') (keys data)
             [''+'' @ commands data] # setuser_loop current_users rest
      else setuser_loop current_users rest)"

fun deluser_loop :: "(string \<times> User) list \<Rightarrow> string list \<Rightarrow> redis_command list" where
  "deluser_loop us [] = []"
| "deluser_loop us (user # rest) =
     (if map_of us user = None then ACL_DELUSER user # deluser_loop us rest
      else deluser_loop us rest)"

definition apply_to_redis :: "world \<Rightarrow> RedisUsers \<Rightarrow> string list \<Rightarrow> redis_command list" where
  "apply_to_redis w self current_users =
     setuser_loop current_users (get_users w self) @
     deluser_loop (get_users w self) current_users"

section \<open>Auxiliary definitions for the statements\<close>

text \<open>
  \<open>key_value_form l = Some (k, v)\<close> says that the line \<open>l\<close> is the token \<open>k\<close>,
  one space, and the non-empty text \<open>v\<close> that does not begin with whitespace.
\<close>

definition key_value_form :: "string \<Rightarrow> (string \<times> string) option" where
  "key_value_form l =
     (let k = takeWhile (\<lambda>c. \<not> py_isspace c) l in
      case dropWhile (\<lambda>c. \<not> py_isspace c) l of
        [] \<Rightarrow> None
      | c # v \<Rightarrow>
          if c = CHR '' '' \<and> k \<noteq> [] \<and> v \<noteq> [] \<and> \<not> py_isspace (hd v) then Some (k, v)
          else None)"





text \<open>
  \<^verbatim>\<open>RedisConfig(fn).write()\<close>, and a process in which no \<^verbatim>\<open>RedisConfig\<close>
  has been constructed yet and one file exists.
\<close>

definition parse_then_write :: "world \<Rightarrow> string \<Rightarrow> py_error + world" where
  "parse_then_write w fn =
     (case RedisConfig_init w fn of
        (w', Inl e) \<Rightarrow> Inl e
      | (w', Inr self) \<Rightarrow>
          (case RedisConfig_write w' self of
             (w'', Some e) \<Rightarrow> Inl e
           | (w'', None) \<Rightarrow> Inr w''))"

definition fresh_world :: "string \<Rightarrow> string \<Rightarrow> world" where
  "fresh_world fn file_contents =
     \<lparr>conf_files = [fn \<mapsto> file_contents], user_files = Map.empty,
      RedisConfig_entry_order = [], RedisUsers_users = []\<rparr>"

text \<open>
  More starting states: two configuration files and no store constructed yet, twice; a
  registry file with one disabled user; and no file at all.
\<close>

definition two_config_files :: world where
  "two_config_files =
     \<lparr>conf_files = [''a.conf'' \<mapsto> ''port 6379\<newline>'', ''b.conf'' \<mapsto> ''bind 127.0.0.1\<newline>''],
      user_files = Map.empty, RedisConfig_entry_order = [], RedisUsers_users = []\<rparr>"

definition save_after_port :: world where
  "save_after_port =
     \<lparr>conf_files = [''a.conf'' \<mapsto> ''port 6379\<newline>'',
                    ''redis.conf'' \<mapsto> ''save 900 1\<newline>save 300 10\<newline>''],
      user_files = Map.empty, RedisConfig_entry_order = [], RedisUsers_users = []\<rparr>"

definition registry_file :: world where
  "registry_file =
     \<lparr>conf_files = Map.empty,
      user_files = [''redis.users'' \<mapsto>
        [(''bob'', [(''status'', ''off''), (''hash_password'', ''ab12''), (''keys'', ''*''),
                    (''commands'', ''@all'')])]],
      RedisConfig_entry_order = [], RedisUsers_users = []\<rparr>"

definition no_files :: world where
  "no_files =
     \<lparr>conf_files = Map.empty, user_files = Map.empty, RedisConfig_entry_order = [],
      RedisUsers_users = []\<rparr>"

section \<open>Properties of the built-ins\<close>





text \<open>Every line built from a token, one space and a value is in key-value form.\<close>

lemma key_value_formI:
  assumes "k \<noteq> []" and "\<forall>c\<in>set k. \<not> py_isspace c" and "v \<noteq> []"
    and "\<not> py_isspace (hd v)"
  shows "key_value_form (k @ '' '' @ v) = Some (k, v)"
proof -
  let ?P = "\<lambda>c. \<not> py_isspace c"
  have sp: "py_isspace (CHR '' '')" by (simp add: py_isspace_def py_whitespace_def)
  from assms(2) sp have "takeWhile ?P (k @ '' '' @ v) = k"
    and "dropWhile ?P (k @ '' '' @ v) = '' '' @ v"
    by (simp_all add: takeWhile_append2 dropWhile_append2)
  with assms show ?thesis by (simp add: key_value_form_def)
qed

section \<open>RedisConfig: parsing and writing\<close>






lemmas eval_defs =
  NL_def CR_def is_entry_line_def py_split1_def py_isspace_def py_whitespace_def
  parse_line_def store_entry_def RedisConfig_parse_def RedisConfig_init_def
  RedisConfig_write_def parse_then_write_def fresh_world_def




text \<open>
  In the first store of a process the two lines are parsed into the entries
  \<^verbatim>\<open>save\<close> and \<^verbatim>\<open>save 300\<close> and written back as they were.
\<close>

lemma save_lines_first_store:
  assumes "conf_files w fn = Some ''save 900 1\<newline>save 300 10\<newline>''"
    and "RedisConfig_entry_order w = []"
  shows "\<exists>w' self. RedisConfig_init w fn = (w', Inr self) \<and>
     RedisConfig_entry_order w' = [''save'', ''save 300''] \<and>
     entries self ''save'' = Some (PStr ''900 1'') \<and>
     entries self ''save 300'' = Some (PStr ''10'') \<and>
     dom (entries self) = {''save'', ''save 300''} \<and>
     RedisConfig_write w' self = (w', None) \<and>
     conf_files w' fn = Some ''save 900 1\<newline>save 300 10\<newline>''"
proof -
  let ?w = "w\<lparr>RedisConfig_entry_order := [''save'', ''save 300'']\<rparr>"
  let ?self = "\<lparr>filename = fn,
      entries = [''save'' \<mapsto> PStr ''900 1'', ''save 300'' \<mapsto> PStr ''10''],
      comments = [''save'' \<mapsto> [], ''save 300'' \<mapsto> []],
      trailing_comments = [], changed = False\<rparr>"
  have i: "RedisConfig_init w fn = (?w, Inr ?self)"
    using assms by (simp add: eval_defs)
  have "(conf_files w)(fn \<mapsto> ''save 900 1\<newline>save 300 10\<newline>'') = conf_files w"
    using assms(1) by (auto simp: fun_eq_iff)
  then have wr: "RedisConfig_write ?w ?self = (?w, None)"
    by (simp add: RedisConfig_write_def NL_def)
  from i wr assms(1) show ?thesis by auto
qed

text \<open>
  Claim C6 on the code. The entries are the two the claim names in every store, but the
  round trip holds only in the first store of a process. After a store was constructed
  from another file, the store of the two \<^verbatim>\<open>save\<close> lines has the right entries,
  and writing it raises \<^verbatim>\<open>KeyError\<close> on the other file's key and leaves the
  file empty. When the same file is parsed into two stores, writing the second one puts
  every line into the file twice.
\<close>

theorem save_lines_second_store:
  "(\<exists>w1 A w2 B w3.
      RedisConfig_init save_after_port ''a.conf'' = (w1, Inr A) \<and>
      RedisConfig_init w1 ''redis.conf'' = (w2, Inr B) \<and>
      entries B ''save'' = Some (PStr ''900 1'') \<and>
      entries B ''save 300'' = Some (PStr ''10'') \<and>
      RedisConfig_entry_order w2 = [''port'', ''save'', ''save 300''] \<and>
      RedisConfig_write w2 B = (w3, Some KeyError) \<and>
      conf_files w3 ''redis.conf'' = Some []) \<and>
   (\<exists>w1 A w2 B w3.
      RedisConfig_init save_after_port ''redis.conf'' = (w1, Inr A) \<and>
      RedisConfig_init w1 ''redis.conf'' = (w2, Inr B) \<and>
      entries B ''save'' = Some (PStr ''900 1'') \<and>
      entries B ''save 300'' = Some (PStr ''10'') \<and>
      RedisConfig_write w2 B = (w3, None) \<and>
      conf_files w3 ''redis.conf'' =
        Some ''save 900 1\<newline>save 300 10\<newline>save 900 1\<newline>save 300 10\<newline>'')"
  by (simp add: eval_defs save_after_port_def)

text \<open>
  Claim C2 on the code. Two stores are constructed from two files, one after the other:
  the entry order the second store reads holds the first file's key, which its own
  \<^verbatim>\<open>entries\<close> lacks, so that writing it raises \<^verbatim>\<open>KeyError\<close>; and the
  first store's entry order has grown by the second file's key. Two registries are
  constructed for files that do not exist: a user added through the first is a user of
  the second.
\<close>

theorem instances_share_class_state:
  "(\<exists>w1 A w2 B.
      RedisConfig_init two_config_files ''a.conf'' = (w1, Inr A) \<and>
      RedisConfig_entry_order w1 = [''port''] \<and>
      RedisConfig_init w1 ''b.conf'' = (w2, Inr B) \<and>
      RedisConfig_entry_order w2 = [''port'', ''bind''] \<and>
      entries B ''port'' = None \<and>
      snd (RedisConfig_write w2 B) = Some KeyError) \<and>
   (\<exists>U1 U2 w' U1'.
      RedisUsers_init H two_config_files ''a.users'' = Inr U1 \<and>
      RedisUsers_init H two_config_files ''b.users'' = Inr U2 \<and>
      get_users two_config_files U2 = [] \<and>
      add_user H two_config_files U1 ''alice'' ''on'' ''*'' ''@all'' None = (True, w', U1') \<and>
      get_users w' U2 = [(''alice'', User_init H ''on'' ''*'' ''@all'' None)])"
  by (simp add: eval_defs two_config_files_def RedisUsers_init_def get_users_def add_user_def
      put_users_def)

section \<open>RedisConfig: setters\<close>

text \<open>
  Claim C9. For every store and every key absent from its entries,
  \<^verbatim>\<open>set_config_value\<close> returns \<^verbatim>\<open>False\<close> and the store it leaves is the
  store it was given: entries, comments and the \<^verbatim>\<open>changed\<close> flag are untouched
  (the entry order is not reachable from this method), and the key is still absent.
\<close>

theorem set_config_value_absent_key:
  "entries self key = None \<Longrightarrow>
   set_config_value self key val = (False, self) \<and>
   get_config_value (snd (set_config_value self key val)) key = None"
  by (simp add: set_config_value_def get_config_value_def)

theorem set_config_value_absent_key_witness:
  "entries \<lparr>filename = ''redis.conf'', entries = [''port'' \<mapsto> PStr ''6379''],
            comments = [''port'' \<mapsto> []], trailing_comments = [], changed = False\<rparr>
     ''nonexistent_key'' = None \<and>
   set_config_value
     \<lparr>filename = ''redis.conf'', entries = [''port'' \<mapsto> PStr ''6379''],
      comments = [''port'' \<mapsto> []], trailing_comments = [], changed = False\<rparr>
     ''nonexistent_key'' (PStr ''x'') =
   (False, \<lparr>filename = ''redis.conf'', entries = [''port'' \<mapsto> PStr ''6379''],
      comments = [''port'' \<mapsto> []], trailing_comments = [], changed = False\<rparr>)"
  using set_config_value_absent_key
    [of "\<lparr>filename = ''redis.conf'', entries = [''port'' \<mapsto> PStr ''6379''],
      comments = [''port'' \<mapsto> []], trailing_comments = [], changed = False\<rparr>"
      "''nonexistent_key''" "PStr ''x''"]
  by simp

lemma valid_ipv4_999: "valid_ipv4 ''999.999.1.1'' = Inr True"
  by (simp add: valid_ipv4_def py_int_def int_strip_def int_whitespace_def py_unsigned_def
      is_digit_def digit_val_def)

text \<open>
  Claim C3 on the code. In every store that has a \<^verbatim>\<open>bind\<close> entry,
  \<^verbatim>\<open>set_ip_address("999.999.1.1")\<close> returns \<^verbatim>\<open>True\<close> and overwrites
  the entry: no octet can be both below 0 and above 255, so \<^verbatim>\<open>valid_ipv4\<close>
  accepts every four numbers.
\<close>

theorem set_ip_address_accepts_999:
  "entries self ''bind'' = Some v \<Longrightarrow>
   set_ip_address self (Some ''999.999.1.1'') =
     Inr (True, self\<lparr>entries := (entries self)(''bind'' \<mapsto> PStr ''999.999.1.1''),
                     changed := True\<rparr>)"
  by (simp add: set_ip_address_def valid_ipv4_999 set_config_value_def)

theorem set_ip_address_accepts_999_witness:
  "entries \<lparr>filename = ''redis.conf'', entries = [''bind'' \<mapsto> PStr ''127.0.0.1''],
            comments = [''bind'' \<mapsto> []], trailing_comments = [], changed = False\<rparr>
     ''bind'' = Some (PStr ''127.0.0.1'') \<and>
   set_ip_address
     \<lparr>filename = ''redis.conf'', entries = [''bind'' \<mapsto> PStr ''127.0.0.1''],
      comments = [''bind'' \<mapsto> []], trailing_comments = [], changed = False\<rparr>
     (Some ''999.999.1.1'') =
   Inr (True, \<lparr>filename = ''redis.conf'', entries = [''bind'' \<mapsto> PStr ''999.999.1.1''],
      comments = [''bind'' \<mapsto> []], trailing_comments = [], changed = True\<rparr>)"
  using set_ip_address_accepts_999
    [of "\<lparr>filename = ''redis.conf'', entries = [''bind'' \<mapsto> PStr ''127.0.0.1''],
      comments = [''bind'' \<mapsto> []], trailing_comments = [], changed = False\<rparr>"
      "PStr ''127.0.0.1''"]
  by simp

lemma set_port_int:
  "entries self ''port'' = Some v \<Longrightarrow>
   set_port self (Some (PInt p)) =
     (if 0 < p \<and> p < 65536
      then Inr (True, self\<lparr>entries := (entries self)(''port'' \<mapsto> PInt p), changed := True\<rparr>)
      else Inr (False, self))"
  by (simp add: set_port_def set_config_value_def)

text \<open>
  Claim C8 on the code. In every store that has a \<^verbatim>\<open>port\<close> entry,
  \<^verbatim>\<open>set_port(6379)\<close> returns \<^verbatim>\<open>True\<close>, and \<^verbatim>\<open>get_port()\<close>
  then returns the integer 6379 that was stored, which is not the string
  \<^verbatim>\<open>"6379"\<close>. Handed the string, as its signature asks, \<^verbatim>\<open>set_port\<close>
  raises \<^verbatim>\<open>TypeError\<close>.
\<close>

theorem set_port_stores_int:
  "entries self ''port'' = Some v \<Longrightarrow>
   (\<exists>self'. set_port self (Some (PInt 6379)) = Inr (True, self') \<and>
      get_port self' = Some (PInt 6379) \<and> get_port self' \<noteq> Some (PStr ''6379'')) \<and>
   set_port self (Some (PStr ''6379'')) = Inl TypeError"
proof -
  assume p: "entries self ''port'' = Some v"
  have "set_port self (Some (PStr ''6379'')) = Inl TypeError"
    by (simp add: set_port_def)
  with p show ?thesis
    by (simp add: set_port_int get_port_def get_config_value_def)
qed

theorem set_port_stores_int_witness:
  "entries \<lparr>filename = ''redis.conf'', entries = [''port'' \<mapsto> PStr ''7000''],
            comments = [''port'' \<mapsto> []], trailing_comments = [], changed = False\<rparr>
     ''port'' = Some (PStr ''7000'') \<and>
   (\<exists>self'. set_port
      \<lparr>filename = ''redis.conf'', entries = [''port'' \<mapsto> PStr ''7000''],
       comments = [''port'' \<mapsto> []], trailing_comments = [], changed = False\<rparr>
      (Some (PInt 6379)) = Inr (True, self') \<and>
      get_port self' = Some (PInt 6379) \<and> get_port self' \<noteq> Some (PStr ''6379'')) \<and>
   set_port
      \<lparr>filename = ''redis.conf'', entries = [''port'' \<mapsto> PStr ''7000''],
       comments = [''port'' \<mapsto> []], trailing_comments = [], changed = False\<rparr>
      (Some (PStr ''6379'')) = Inl TypeError"
  using set_port_stores_int
    [of "\<lparr>filename = ''redis.conf'', entries = [''port'' \<mapsto> PStr ''7000''],
       comments = [''port'' \<mapsto> []], trailing_comments = [], changed = False\<rparr>"
      "PStr ''7000''"]
  by simp

section \<open>RedisUsers\<close>

lemma get_put_users:
  "put_users w self us = (w', self') \<Longrightarrow> get_users w' self' = us"
  by (auto simp: put_users_def get_users_def split: option.splits)

lemma put_users_ufilename:
  "put_users w self us = (w', self') \<Longrightarrow> ufilename self' = ufilename self"
  by (auto simp: put_users_def split: option.splits)

lemma put_users_user_files:
  "put_users w self us = (w', self') \<Longrightarrow> user_files w' = user_files w"
  by (auto simp: put_users_def split: option.splits)

text \<open>
  Claim C7 on the code. For a registered user, \<^verbatim>\<open>RedisUsers.set_password\<close>
  replaces the stored hash by the hash of the new password and returns \<^verbatim>\<open>None\<close>,
  not \<^verbatim>\<open>True\<close>.
\<close>

theorem set_password_registered_returns_None:
  "map_of (get_users w self) user = Some u \<Longrightarrow>
   (\<exists>w' self'. set_password H w self user password = (PyNone, w', self') \<and>
      map_of (get_users w' self') user = Some (u\<lparr>hash_password := H (utf8 password)\<rparr>))"
proof -
  assume u: "map_of (get_users w self) user = Some u"
  obtain w' self' where p: "put_users w self
      (AList.update user (User_set_password H u password) (get_users w self)) = (w', self')"
    by (cases "put_users w self
      (AList.update user (User_set_password H u password) (get_users w self))")
  from get_put_users [OF p] have "map_of (get_users w' self') user =
      Some (u\<lparr>hash_password := H (utf8 password)\<rparr>)"
    by (simp add: update_conv' User_set_password_def)
  with u p show ?thesis by (simp add: set_password_def)
qed

theorem set_password_registered_returns_None_witness:
  "map_of (get_users no_files
      \<lparr>ufilename = ''redis.users'', users_attr = Some [(''alice'',
         \<lparr>status = ''on'', hash_password = ''00'', keys = ''*'', commands = ''@all''\<rparr>)]\<rparr>)
     ''alice'' =
     Some \<lparr>status = ''on'', hash_password = ''00'', keys = ''*'', commands = ''@all''\<rparr> \<and>
   fst (set_password (\<lambda>b. ''5e88'') no_files
      \<lparr>ufilename = ''redis.users'', users_attr = Some [(''alice'',
         \<lparr>status = ''on'', hash_password = ''00'', keys = ''*'', commands = ''@all''\<rparr>)]\<rparr>
      ''alice'' ''secret'') = PyNone"
  using set_password_registered_returns_None
    [of no_files
      "\<lparr>ufilename = ''redis.users'', users_attr = Some [(''alice'',
         \<lparr>status = ''on'', hash_password = ''00'', keys = ''*'', commands = ''@all''\<rparr>)]\<rparr>"
      "''alice''"
      "\<lparr>status = ''on'', hash_password = ''00'', keys = ''*'', commands = ''@all''\<rparr>"
      "\<lambda>b. ''5e88''" "''secret''"]
  by (auto simp: get_users_def)

lemma set_password_absent:
  "map_of (get_users w self) user = None \<Longrightarrow>
   set_password H w self user password = (PyBool False, w, self)"
  by (simp add: set_password_def)

lemma parse_dict_fields:
  "parse_dict u0 d = Inr u \<Longrightarrow>
   map_of d ''status'' = Some (status u) \<and> map_of d ''keys'' = Some (keys u) \<and>
   map_of d ''commands'' = Some (commands u) \<and>
   map_of d ''hash_password'' = Some (hash_password u)"
  by (auto simp: parse_dict_def split: option.splits)

lemma parse_users_map_of:
  "parse_users H doc = Inr us \<Longrightarrow> map_of doc user = Some d \<Longrightarrow>
   \<exists>u. map_of us user = Some u \<and> parse_dict (User_default H) d = Inr u"
  by (induction doc arbitrary: us) (auto split: sum.splits if_splits)

lemma written_row:
  "map_of us user = Some u \<Longrightarrow>
   map_of (map (\<lambda>(key, u). (key, fst (get_user_dict u))) us) user =
     Some [(''status'', ''on''), (''hash_password'', hash_password u),
           (''keys'', keys u), (''commands'', commands u)]"
  by (induction us) (auto simp: get_user_dict_def Let_def)

lemma RedisUsers_write_file:
  "RedisUsers_write w self = (w', self') \<Longrightarrow>
   user_files w' (ufilename self) =
     Some (map (\<lambda>(key, u). (key, fst (get_user_dict u))) (get_users w self))"
  by (auto simp: RedisUsers_write_def Let_def split: prod.splits)

text \<open>
  Claim C4 on the code. Whatever status a user was loaded with, loading the registry and
  writing it back serializes the user with status \<^verbatim>\<open>on\<close>; the hashed password,
  the key pattern and the command pattern are the loaded ones.
\<close>

theorem load_write_status_on:
  assumes "user_files w fn = Some doc" and "map_of doc user = Some d"
    and "RedisUsers_init H w fn = Inr self" and "RedisUsers_write w self = (w', self')"
  shows "\<exists>data row. user_files w' fn = Some data \<and> map_of data user = Some row \<and>
           map_of row ''status'' = Some ''on'' \<and>
           map_of row ''hash_password'' = map_of d ''hash_password'' \<and>
           map_of row ''keys'' = map_of d ''keys'' \<and>
           map_of row ''commands'' = map_of d ''commands''"
proof -
  from assms(1,3) obtain us where us: "parse_users H doc = Inr us"
    and self: "self = \<lparr>ufilename = fn, users_attr = Some us\<rparr>"
    by (auto simp: RedisUsers_init_def RedisUsers_parse_def Let_def split: sum.splits)
  from parse_users_map_of [OF us assms(2)] obtain u where
    u: "map_of us user = Some u" and pd: "parse_dict (User_default H) d = Inr u"
    by blast
  have g: "get_users w self = us" by (simp add: self get_users_def)
  from RedisUsers_write_file [OF assms(4)] g self
  have "user_files w' fn = Some (map (\<lambda>(key, u). (key, fst (get_user_dict u))) us)"
    by simp
  with written_row [OF u] parse_dict_fields [OF pd] show ?thesis by simp
qed

theorem load_write_status_on_witness:
  "map_of [(''status'', ''off''), (''hash_password'', ''ab12''), (''keys'', ''*''),
           (''commands'', ''@all'')] ''status'' = Some ''off'' \<and>
   RedisUsers_init (\<lambda>b. ''5e88'') registry_file ''redis.users'' =
     Inr \<lparr>ufilename = ''redis.users'', users_attr = Some [(''bob'',
       \<lparr>status = ''off'', hash_password = ''ab12'', keys = ''*'', commands = ''@all''\<rparr>)]\<rparr> \<and>
   (\<exists>data row.
      user_files (fst (RedisUsers_write registry_file
        \<lparr>ufilename = ''redis.users'', users_attr = Some [(''bob'',
          \<lparr>status = ''off'', hash_password = ''ab12'', keys = ''*'', commands = ''@all''\<rparr>)]\<rparr>))
        ''redis.users'' = Some data \<and>
      map_of data ''bob'' = Some row \<and> map_of row ''status'' = Some ''on'')"
proof -
  let ?d = "[(''status'', ''off''), (''hash_password'', ''ab12''), (''keys'', ''*''),
             (''commands'', ''@all'')]"
  let ?self = "\<lparr>ufilename = ''redis.users'', users_attr = Some [(''bob'',
       \<lparr>status = ''off'', hash_password = ''ab12'', keys = ''*'', commands = ''@all''\<rparr>)]\<rparr>"
  have f: "user_files registry_file ''redis.users'' = Some [(''bob'', ?d)]"
    by (simp add: registry_file_def)
  have m: "map_of [(''bob'', ?d)] ''bob'' = Some ?d" by simp
  have i: "RedisUsers_init (\<lambda>b. ''5e88'') registry_file ''redis.users'' = Inr ?self"
    by (simp add: registry_file_def RedisUsers_init_def RedisUsers_parse_def parse_dict_def
        User_default_def User_init_def)
  have w: "RedisUsers_write registry_file ?self =
      (fst (RedisUsers_write registry_file ?self), snd (RedisUsers_write registry_file ?self))"
    by simp
  from load_write_status_on [OF f m i w] i show ?thesis by auto
qed

lemma distinct_pair:
  assumes "distinct xs" and "set xs = {x, y}" and "x \<noteq> y"
  shows "xs = [x, y] \<or> xs = [y, x]"
proof -
  from assms have "length xs = 2" by (metis card_2_iff distinct_card)
  then obtain p q where xs: "xs = [p, q]"
    by (cases xs; cases "tl xs"; cases "tl (tl xs)") auto
  with assms show ?thesis by (auto simp: doubleton_eq_iff)
qed

text \<open>
  Claim C5. When the registry declares exactly the users \<open>a\<close> and \<open>b\<close> and the
  server lists exactly \<open>b\<close> and \<open>c\<close>, \<^verbatim>\<open>apply_to_redis\<close> sends two commands:
  one \<^verbatim>\<open>acl_setuser\<close> for \<open>a\<close>, with the hashed password and the command pattern
  each prefixed by \<^verbatim>\<open>+\<close>, the enabled flag \<^verbatim>\<open>status == "on"\<close> and the key
  pattern, then one \<^verbatim>\<open>acl_deluser\<close> for \<open>c\<close>. No command names \<open>b\<close>.
\<close>

theorem apply_to_redis_set_difference:
  assumes us: "get_users w self = us"
    and du: "distinct (map fst us)" and su: "set (map fst us) = {a, b}"
    and dc: "distinct current_users" and sc: "set current_users = {b, c}"
    and ne: "a \<noteq> b" "a \<noteq> c" "b \<noteq> c"
    and da: "map_of us a = Some data"
  shows "apply_to_redis w self current_users =
     [ACL_SETUSER a [''+'' @ hash_password data] (status data = ''on'') (keys data)
        [''+'' @ commands data],
      ACL_DELUSER c]"
proof -
  from distinct_pair [OF du su ne(1)] have
    "\<exists>ua ub. us = [(a, ua), (b, ub)] \<or> us = [(b, ub), (a, ua)]"
    by (auto simp: map_eq_Cons_conv)
  then obtain ua ub where "us = [(a, ua), (b, ub)] \<or> us = [(b, ub), (a, ua)]"
    by blast
  moreover from distinct_pair [OF dc sc ne(3)] have
    "current_users = [b, c] \<or> current_users = [c, b]" .
  ultimately show ?thesis using ne da us
    by (auto simp: apply_to_redis_def)
qed

theorem apply_to_redis_set_difference_witness:
  "apply_to_redis no_files
     \<lparr>ufilename = ''redis.users'', users_attr = Some
        [(''a'', \<lparr>status = ''off'', hash_password = ''ab12'', keys = ''job:*'',
                  commands = ''@read''\<rparr>),
         (''b'', \<lparr>status = ''on'', hash_password = ''cd34'', keys = ''*'',
                  commands = ''@all''\<rparr>)]\<rparr>
     [''b'', ''c''] =
   [ACL_SETUSER ''a'' [''+ab12''] False ''job:*'' [''+@read''], ACL_DELUSER ''c'']"
proof -
  let ?us = "[(''a'', \<lparr>status = ''off'', hash_password = ''ab12'', keys = ''job:*'',
                  commands = ''@read''\<rparr>),
         (''b'', \<lparr>status = ''on'', hash_password = ''cd34'', keys = ''*'',
                  commands = ''@all''\<rparr>)]"
  let ?self = "\<lparr>ufilename = ''redis.users'', users_attr = Some ?us\<rparr>"
  have us: "get_users no_files ?self = ?us" by (simp add: get_users_def)
  have du: "distinct (map fst ?us)" by simp
  have su: "set (map fst ?us) = {''a'', ''b''}" by simp
  have dc: "distinct [''b'', ''c'']" by simp
  have sc: "set [''b'', ''c''] = {''b'', ''c''}" by simp
  have ne: "''a'' \<noteq> ''b''" "''a'' \<noteq> ''c''" "''b'' \<noteq> ''c''" by simp_all
  have da: "map_of ?us ''a'' = Some \<lparr>status = ''off'', hash_password = ''ab12'',
      keys = ''job:*'', commands = ''@read''\<rparr>" by simp
  from apply_to_redis_set_difference [OF us du su dc sc ne da] show ?thesis by simp
qed

lemma add_user_new:
  assumes "map_of (get_users w self) user = None"
    and "add_user H w self user st ks cmds password = (r, w', self')"
  shows "r" and "ufilename self' = ufilename self"
    and "map_of (get_users w' self') =
           (map_of (get_users w self))(user \<mapsto> User_init H st ks cmds password)"
proof -
  from assms have r: "r" and p: "put_users w self
      (AList.update user (User_init H st ks cmds password) (get_users w self)) = (w', self')"
    by (auto simp: add_user_def)
  show "r" by fact
  show "ufilename self' = ufilename self" by (rule put_users_ufilename [OF p])
  show "map_of (get_users w' self') =
           (map_of (get_users w self))(user \<mapsto> User_init H st ks cmds password)"
    using get_put_users [OF p] by (simp add: update_conv')
qed

text \<open>
  Claim C10. A user constructed without a password has the hash of the bytes
  \<^verbatim>\<open>password\<close> as its hashed password. Two users added to a registry without
  passwords are both serialized by \<^verbatim>\<open>write\<close> with this same hash.
\<close>

theorem users_without_password_share_default_hash:
  assumes n1: "map_of (get_users w self) u1 = None"
    and n2: "map_of (get_users w self) u2 = None"
    and ne: "u1 \<noteq> u2"
    and a1: "add_user H w self u1 st1 ks1 cmds1 None = (r1, w1, self1)"
    and a2: "add_user H w1 self1 u2 st2 ks2 cmds2 None = (r2, w2, self2)"
    and wr: "RedisUsers_write w2 self2 = (w3, self3)"
  shows "r1 \<and> r2 \<and>
     hash_password (User_init H st1 ks1 cmds1 None) = H ''password'' \<and>
     (\<exists>data row1 row2. user_files w3 (ufilename self) = Some data \<and>
        map_of data u1 = Some row1 \<and> map_of data u2 = Some row2 \<and>
        map_of row1 ''hash_password'' = Some (H ''password'') \<and>
        map_of row2 ''hash_password'' = Some (H ''password''))"
proof -
  note s1 = add_user_new [OF n1 a1]
  from s1(3) n2 ne have n2': "map_of (get_users w1 self1) u2 = None" by simp
  note s2 = add_user_new [OF n2' a2]
  have h: "\<And>st ks cmds. hash_password (User_init H st ks cmds None) = H ''password''"
    by (simp add: User_init_def)
  from s1(3) s2(3) ne have
    m1: "map_of (get_users w2 self2) u1 = Some (User_init H st1 ks1 cmds1 None)" and
    m2: "map_of (get_users w2 self2) u2 = Some (User_init H st2 ks2 cmds2 None)"
    by simp_all
  from RedisUsers_write_file [OF wr] s1(2) s2(2) have
    f: "user_files w3 (ufilename self) =
      Some (map (\<lambda>(key, u). (key, fst (get_user_dict u))) (get_users w2 self2))"
    by simp
  from written_row [OF m1] written_row [OF m2] f h s1(1) s2(1) show ?thesis by simp
qed

theorem users_without_password_share_default_hash_witness:
  "add_user (\<lambda>b. ''5e88'') no_files \<lparr>ufilename = ''redis.users'', users_attr = Some []\<rparr>
      ''alice'' ''on'' ''*'' ''@all'' None =
     (True, no_files, \<lparr>ufilename = ''redis.users'', users_attr = Some
        [(''alice'', \<lparr>status = ''on'', hash_password = ''5e88'', keys = ''*'',
                      commands = ''@all''\<rparr>)]\<rparr>) \<and>
   add_user (\<lambda>b. ''5e88'') no_files
      \<lparr>ufilename = ''redis.users'', users_attr = Some
        [(''alice'', \<lparr>status = ''on'', hash_password = ''5e88'', keys = ''*'',
                      commands = ''@all''\<rparr>)]\<rparr>
      ''bob'' ''off'' ''job:*'' ''@read'' None =
     (True, no_files, \<lparr>ufilename = ''redis.users'', users_attr = Some
        [(''alice'', \<lparr>status = ''on'', hash_password = ''5e88'', keys = ''*'',
                      commands = ''@all''\<rparr>),
         (''bob'', \<lparr>status = ''off'', hash_password = ''5e88'', keys = ''job:*'',
                    commands = ''@read''\<rparr>)]\<rparr>) \<and>
   (\<exists>data row1 row2.
      user_files (fst (RedisUsers_write no_files
         \<lparr>ufilename = ''redis.users'', users_attr = Some
           [(''alice'', \<lparr>status = ''on'', hash_password = ''5e88'', keys = ''*'',
                         commands = ''@all''\<rparr>),
            (''bob'', \<lparr>status = ''off'', hash_password = ''5e88'', keys = ''job:*'',
                       commands = ''@read''\<rparr>)]\<rparr>)) ''redis.users'' = Some data \<and>
      map_of data ''alice'' = Some row1 \<and> map_of data ''bob'' = Some row2 \<and>
      map_of row1 ''hash_password'' = Some ''5e88'' \<and>
      map_of row2 ''hash_password'' = Some ''5e88'')"
proof -
  let ?H = "\<lambda>b::string. ''5e88''"
  let ?s0 = "\<lparr>ufilename = ''redis.users'', users_attr = Some []\<rparr>"
  let ?s1 = "\<lparr>ufilename = ''redis.users'', users_attr = Some
        [(''alice'', \<lparr>status = ''on'', hash_password = ''5e88'', keys = ''*'',
                      commands = ''@all''\<rparr>)]\<rparr>"
  let ?s2 = "\<lparr>ufilename = ''redis.users'', users_attr = Some
        [(''alice'', \<lparr>status = ''on'', hash_password = ''5e88'', keys = ''*'',
                      commands = ''@all''\<rparr>),
         (''bob'', \<lparr>status = ''off'', hash_password = ''5e88'', keys = ''job:*'',
                    commands = ''@read''\<rparr>)]\<rparr>"
  have n1: "map_of (get_users no_files ?s0) ''alice'' = None" by (simp add: get_users_def)
  have n2: "map_of (get_users no_files ?s0) ''bob'' = None" by (simp add: get_users_def)
  have ne: "''alice'' \<noteq> ''bob''" by simp
  have a1: "add_user ?H no_files ?s0 ''alice'' ''on'' ''*'' ''@all'' None = (True, no_files, ?s1)"
    by (simp add: add_user_def get_users_def put_users_def User_init_def)
  have a2: "add_user ?H no_files ?s1 ''bob'' ''off'' ''job:*'' ''@read'' None =
      (True, no_files, ?s2)"
    by (simp add: add_user_def get_users_def put_users_def User_init_def)
  have wr: "RedisUsers_write no_files ?s2 =
      (fst (RedisUsers_write no_files ?s2), snd (RedisUsers_write no_files ?s2))"
    by simp
  from users_without_password_share_default_hash [OF n1 n2 ne a1 a2 wr] a1 a2
  show ?thesis by simp
qed

end
